theory Spec2Isabelle
  imports Main "HOL-Library.Char_ord" "HOL-Library.Multiset"
begin

section \<open>The CMake file API client of the MSVC code analysis action (index.js)\<close>

text \<open>
  A shallow embedding of \<^verbatim>\<open>src/index.js\<close>. JavaScript strings are modelled as
  \<^typ>\<open>string\<close> (one \<^typ>\<open>char\<close> per code unit), thrown exceptions as the left
  summand of a sum type, the fields of the session object as a record that every method
  returns updated, and the Node modules the file only calls (\<^verbatim>\<open>fs\<close>,
  \<^verbatim>\<open>path\<close>, \<^verbatim>\<open>child_process\<close>) as a record of functions over an abstract
  world.
\<close>

subsection \<open>Characters and strings\<close>

text \<open>
  The two characters the quoting rule is about: the path separator \<^verbatim>\<open>'\\'\<close> and
  the double quote.
\<close>

definition backslash :: char where
  "backslash = CHR 0x5C"

definition dquote :: char where
  "dquote = CHR 0x22"

text \<open>
  \<^verbatim>\<open>new Array(n).join(sep)\<close>: an array of \<open>n\<close> empty slots joined by \<open>sep\<close> is
  \<open>n - 1\<close> copies of \<open>sep\<close>, and the empty string for \<open>n = 0\<close>.
\<close>

definition Array_join :: "nat \<Rightarrow> string \<Rightarrow> string" where
  "Array_join n sep = concat (replicate (n - 1) sep)"

subsection \<open>escapeArgument (lines 16-29)\<close>

text \<open>
  The loop of lines 18-21:
  \<^verbatim>\<open>while (i < arg.length && arg[arg.length - 1 - i] == '\\') { i++; }\<close>
  The index is in range whenever it is read, because \<open>i < arg.length\<close> is tested first.
\<close>

function escapeArgument_loop :: "string \<Rightarrow> nat \<Rightarrow> nat" where
  "escapeArgument_loop arg i =
     (if i < length arg \<and> arg ! (length arg - 1 - i) = backslash
      then escapeArgument_loop arg (i + 1) else i)"
  by pat_completeness auto
termination
  by (relation "measure (\<lambda>(arg, i). length arg - i)") auto

declare escapeArgument_loop.simps [simp del]

definition escapeArgument :: "string \<Rightarrow> string" where
  "escapeArgument arg =
     (let i = escapeArgument_loop arg 0;
          arg' = (if i > 0 then arg @ Array_join (i + 1) [backslash] else arg)
      in [dquote] @ arg' @ [dquote])"

lemma escapeArgument_loop_count:
  assumes "base = [] \<or> last base \<noteq> backslash" and "i \<le> k"
  shows "escapeArgument_loop (base @ replicate k backslash) i = k"
  using assms(2)
proof (induction "k - i" arbitrary: i)
  case 0
  then have ik: "i = k" by simp
  show ?case
  proof (cases "base = []")
    case True
    then show ?thesis using ik by (subst escapeArgument_loop.simps) simp
  next
    case False
    then have "last base \<noteq> backslash" using assms(1) by simp
    then show ?thesis using ik False
      by (subst escapeArgument_loop.simps) (simp add: nth_append last_conv_nth)
  qed
next
  case (Suc d)
  then have lt: "i < k" by simp
  have "length (base @ replicate k backslash) - 1 - i = length base + (k - 1 - i)"
    using lt by simp
  then have "(base @ replicate k backslash) ! (length (base @ replicate k backslash) - 1 - i)
               = backslash"
    using lt by (simp only: nth_append_length_plus) simp
  moreover have "escapeArgument_loop (base @ replicate k backslash) (i + 1) = k"
    using Suc lt by simp
  ultimately show ?case using lt
    by (subst escapeArgument_loop.simps) simp
qed

lemma concat_replicate_single: "concat (replicate n [c]) = replicate n c"
  by (induction n) simp_all

text \<open>
  Claim C1. Every argument is some \<open>base\<close> that does not end in a backslash, followed
  by exactly \<open>k \<ge> 0\<close> backslashes. escapeArgument returns it between two double quotes
  with the trailing backslashes doubled: exactly \<open>2 * k\<close> backslashes stand immediately
  before the closing quote, and for \<open>k = 0\<close> the result is the argument between an
  opening and a closing double quote.
\<close>

theorem escapeArgument_doubles_trailing:
  assumes "base = [] \<or> last base \<noteq> backslash"
  shows "escapeArgument (base @ replicate k backslash)
           = [dquote] @ base @ replicate (2 * k) backslash @ [dquote]
         \<and> escapeArgument base = [dquote] @ base @ [dquote]"
proof -
  have c: "escapeArgument_loop (base @ replicate k backslash) 0 = k"
    using escapeArgument_loop_count [OF assms, of 0 k] by simp
  have "escapeArgument_loop (base @ replicate 0 backslash) 0 = 0"
    using escapeArgument_loop_count [OF assms, of 0 0] by simp
  then have "escapeArgument base = [dquote] @ base @ [dquote]"
    by (simp add: escapeArgument_def)
  moreover have "escapeArgument (base @ replicate k backslash)
           = [dquote] @ base @ replicate (2 * k) backslash @ [dquote]"
    by (simp add: escapeArgument_def c Array_join_def concat_replicate_single
        replicate_add [symmetric] mult_2)
  ultimately show ?thesis by simp
qed

theorem escapeArgument_doubles_trailing_witness:
  "escapeArgument (''C:'' @ [backslash, backslash])
     = [dquote] @ ''C:'' @ [backslash, backslash, backslash, backslash] @ [dquote]
   \<and> escapeArgument ''C:'' = [dquote] @ ''C:'' @ [dquote]"
proof -
  have h: "''C:'' = [] \<or> last ''C:'' \<noteq> backslash"
    by (simp add: backslash_def)
  show ?thesis
    using escapeArgument_doubles_trailing [OF h, of 2]
    by (simp add: eval_nat_numeral)
qed

subsection \<open>String comparison and tests\<close>

text \<open>
  The relational operators on two strings compare them code unit by code unit: a proper
  prefix is smaller, otherwise the first differing code unit decides. \<open>a > b\<close> is
  \<open>b < a\<close>.
\<close>

fun str_lt :: "string \<Rightarrow> string \<Rightarrow> bool" where
  "str_lt [] [] = False"
| "str_lt [] (y # ys) = True"
| "str_lt (x # xs) [] = False"
| "str_lt (x # xs) (y # ys) = (if x < y then True else if y < x then False else str_lt xs ys)"

definition str_gt :: "string \<Rightarrow> string \<Rightarrow> bool" where
  "str_gt a b = str_lt b a"

definition startsWith :: "string \<Rightarrow> string \<Rightarrow> bool" where
  "startsWith s t = (take (length t) s = t)"

definition endsWith :: "string \<Rightarrow> string \<Rightarrow> bool" where
  "endsWith s t = (length t \<le> length s \<and> drop (length s - length t) s = t)"

subsection \<open>Exceptions\<close>

text \<open>
  \<open>Error\<close> carries the message of a \<^verbatim>\<open>throw new Error(...)\<close> of the file;
  \<open>ReferenceError\<close> carries the identifier that does not resolve; \<open>TypeError\<close> is
  what reading a property of \<^verbatim>\<open>undefined\<close>, calling a value that is not a function
  or iterating a value that is not iterable throws; \<open>SyntaxError\<close> is what
  \<^verbatim>\<open>JSON.parse\<close> throws on a text that is not JSON.
\<close>

datatype js_error = Error string | ReferenceError string | TypeError | SyntaxError

subsection \<open>The data model\<close>

record compiler_info =
  ci_path :: string
  ci_version :: string
  ci_includes :: "string list"

record cache_entry =
  ce_name :: string
  ce_value :: string
  ce_type :: string

record response =
  rsp_kind :: string
  rsp_jsonFile :: string

text \<open>
  The index document: \<^verbatim>\<open>version.string\<close>, \<^verbatim>\<open>paths.cmake\<close> and
  \<^verbatim>\<open>reply[client][queryFile].responses\<close>.
\<close>

record index_doc =
  idx_version_string :: string
  idx_paths_cmake :: string
  idx_reply :: "(string \<times> (string \<times> response list) list) list"

text \<open>
  The codemodel document: for each configuration the \<^verbatim>\<open>jsonFile\<close> of its targets,
  and \<^verbatim>\<open>paths.source\<close>.
\<close>

record codemodel_doc =
  cm_configurations :: "string list list"
  cm_paths_source :: string

record toolchain =
  tc_language :: string
  tc_compiler_id :: string
  tc_compiler_path :: string
  tc_compiler_version :: string
  tc_compiler_includeDirectories :: "string list"

text \<open>
  A compile group: \<^verbatim>\<open>language\<close>, the \<^verbatim>\<open>fragment\<close> of each of its
  \<^verbatim>\<open>compileCommandFragments\<close>, its \<^verbatim>\<open>includes\<close>, the \<^verbatim>\<open>define\<close> of each
  of its \<^verbatim>\<open>defines\<close>, and its \<^verbatim>\<open>sourceIndexes\<close>.
\<close>

record compile_group =
  cg_language :: string
  cg_compileCommandFragments :: "string list"
  cg_includes :: "string list"
  cg_defines :: "string list"
  cg_sourceIndexes :: "nat list"

record target_doc =
  td_compileGroups :: "compile_group list"
  td_sources :: "string list"

text \<open>
  What \<^verbatim>\<open>JSON.parse\<close> returns for a reply file, by the kind of the document. A
  document has the members of its own kind only: reading a member of another kind gives
  \<^verbatim>\<open>undefined\<close>, and in every place where the file does so it goes on to read a
  property of that value or to iterate it, which throws a TypeError.
\<close>

datatype reply_doc =
    IndexDoc index_doc
  | CacheDoc "cache_entry list"
  | CodemodelDoc codemodel_doc
  | ToolchainsDoc "toolchain list"
  | TargetDoc target_doc

record compile_command =
  cc_source :: string
  cc_arguments :: string
  cc_compiler :: compiler_info

record options =
  useExternalIncludes :: bool

subsection \<open>The cache object\<close>

text \<open>
  \<^verbatim>\<open>this.cache\<close> is a plain object created by \<^verbatim>\<open>{}\<close> (line 88); the map holds
  its own properties. Its prototype is \<^verbatim>\<open>Object.prototype\<close>, whose property
  \<^verbatim>\<open>__proto__\<close> is an accessor: assigning a string to \<^verbatim>\<open>obj["__proto__"]\<close> runs
  the setter, which ignores a value that is neither an object nor null, so no own
  property is created. Every other name is created or overwritten as an own property.
\<close>

definition proto_name :: string where
  "proto_name = ''__proto__''"

definition Object_prototype :: "string list" where
  "Object_prototype =
     [''constructor'', ''__defineGetter__'', ''__defineSetter__'', ''hasOwnProperty'',
      ''__lookupGetter__'', ''__lookupSetter__'', ''isPrototypeOf'', ''propertyIsEnumerable'',
      ''toString'', ''valueOf'', ''__proto__'', ''toLocaleString'']"

definition obj_set :: "(string \<rightharpoonup> string) \<Rightarrow> string \<Rightarrow> string \<Rightarrow> (string \<rightharpoonup> string)" where
  "obj_set obj k v = (if k = proto_name then obj else obj(k \<mapsto> v))"

text \<open>
  What \<^verbatim>\<open>obj[k]\<close> evaluates to: the own property when there is one, else what
  \<^verbatim>\<open>Object.prototype\<close> provides under that name (a function, or the prototype
  itself for \<^verbatim>\<open>__proto__\<close>), else \<^verbatim>\<open>undefined\<close>.
\<close>

datatype property_value = Str string | Inherited | Undefined

definition obj_get :: "(string \<rightharpoonup> string) \<Rightarrow> string \<Rightarrow> property_value" where
  "obj_get obj k =
     (case obj k of
        Some v \<Rightarrow> Str v
      | None \<Rightarrow> if k \<in> set Object_prototype then Inherited else Undefined)"

subsection \<open>The session object\<close>

record session =
  loaded :: bool
  cCompilerInfo :: "compiler_info option"
  cxxCompilerInfo :: "compiler_info option"
  sourceRoot :: "string option"
  cache :: "string \<rightharpoonup> string"
  targetFilepaths :: "string list"

text \<open>The constructor (lines 81-90).\<close>

definition CMakeApi_new :: session where
  "CMakeApi_new =
     \<lparr>loaded = False, cCompilerInfo = None, cxxCompilerInfo = None, sourceRoot = None,
      cache = Map.empty, targetFilepaths = []\<rparr>"

definition clientName :: string where
  "clientName = ''client-msvc-ca-action''"

subsection \<open>The Node modules the file calls\<close>

text \<open>
  \<^verbatim>\<open>path\<close>, \<^verbatim>\<open>fs\<close> and \<^verbatim>\<open>child_process\<close> are not part of the file. They are
  taken as parameters: functions over a world \<open>'w\<close> (the file system and the processes),
  so that every theorem holds for whatever they do. \<open>fs_readJson\<close> is
  \<^verbatim>\<open>fs.readFileSync\<close> followed by \<^verbatim>\<open>JSON.parse\<close>. \<open>fs_writeFile\<close> is
  asynchronous in Node and reports its failure to a callback, after the caller has
  returned: the call itself does not throw.
\<close>

record 'w node =
  path_join :: "string list \<Rightarrow> string"
  path_basename :: "string \<Rightarrow> string"
  fs_existsSync :: "'w \<Rightarrow> string \<Rightarrow> bool"
  fs_readdirSync :: "'w \<Rightarrow> string \<Rightarrow> js_error + string list"
  fs_readJson :: "'w \<Rightarrow> string \<Rightarrow> js_error + reply_doc"
  fs_mkdirSync :: "'w \<Rightarrow> string \<Rightarrow> js_error + 'w"
  fs_writeFile :: "'w \<Rightarrow> string \<Rightarrow> string \<Rightarrow> 'w"
  child_process_spawn :: "'w \<Rightarrow> string \<Rightarrow> string \<Rightarrow> js_error + 'w"

subsection \<open>Toolset layout helpers (lines 37-51)\<close>

text \<open>
  Both functions name their parameter \<^verbatim>\<open>path\<close>. Inside them the identifier is the
  string argument, not the module required on line 5, and a string has no property
  \<^verbatim>\<open>join\<close>: \<^verbatim>\<open>path.join\<close> is \<^verbatim>\<open>undefined\<close> and calling it throws a
  TypeError, before the right-hand side has a value to assign.
\<close>

definition extractVersionFromCompilerPath :: "string \<Rightarrow> js_error + string" where
  "extractVersionFromCompilerPath path = Inl TypeError"

definition extractIncludesFromCompilerPath :: "string \<Rightarrow> js_error + string list" where
  "extractIncludesFromCompilerPath path = Inl TypeError"

subsection \<open>Reading reply files (lines 99-115 and 155-172)\<close>

definition parseReplyFile :: "'w node \<Rightarrow> 'w \<Rightarrow> string \<Rightarrow> js_error + reply_doc" where
  "parseReplyFile env w replyFile =
     (if replyFile = [] then Inl (Error ''Failed to find CMake API reply file.'')
      else if \<not> fs_existsSync env w replyFile
        then Inl (Error (''Failed to find CMake API reply file: '' @ replyFile))
      else fs_readJson env w replyFile)"

text \<open>
  One round of the loop of lines 158-165. \<^verbatim>\<open>indexFilepath\<close> is \<^verbatim>\<open>undefined\<close>
  (\<open>None\<close>) until a name is stored; \<^verbatim>\<open>!indexFilepath\<close> holds for
  \<^verbatim>\<open>undefined\<close> and for the empty string.
\<close>

definition index_step :: "'w node \<Rightarrow> string \<Rightarrow> string option \<Rightarrow> string option" where
  "index_step env filepath indexFilepath =
     (if startsWith (path_basename env filepath) ''index-''
      then (case indexFilepath of
              None \<Rightarrow> Some filepath
            | Some current \<Rightarrow>
                if current = [] \<or> str_gt filepath current then Some filepath else indexFilepath)
      else indexFilepath)"

definition select_index :: "'w node \<Rightarrow> string list \<Rightarrow> string option" where
  "select_index env names = fold (index_step env) names None"

definition index_not_found :: js_error where
  "index_not_found = Error ''Failed to find CMake API index reply file.''"

text \<open>
  \<^verbatim>\<open>fs.readdirSync(replyDir)\<close> returns the names of the entries of the directory,
  without the directory; the selected name is handed to \<^verbatim>\<open>_parseReplyFile\<close> as it is
  (line 171).
\<close>

definition getApiReplyIndex :: "'w node \<Rightarrow> 'w \<Rightarrow> string \<Rightarrow> js_error + reply_doc" where
  "getApiReplyIndex env w apiDir =
     (let replyDir = path_join env [apiDir, ''reply''] in
      case fs_readdirSync env w replyDir of
        Inl e \<Rightarrow> Inl e
      | Inr names \<Rightarrow>
          (case select_index env names of
             None \<Rightarrow> Inl index_not_found
           | Some indexFilepath \<Rightarrow>
               if indexFilepath = [] then Inl index_not_found
               else parseReplyFile env w indexFilepath))"

subsection \<open>The query (lines 122-148)\<close>

record request =
  rq_kind :: string
  rq_version :: string

definition queryDataLegacy :: "request list" where
  "queryDataLegacy =
     [\<lparr>rq_kind = ''cache'', rq_version = ''2''\<rparr>,
      \<lparr>rq_kind = ''codemodel'', rq_version = ''2''\<rparr>]"

definition queryDataWithToolchains :: "request list" where
  "queryDataWithToolchains =
     [\<lparr>rq_kind = ''cache'', rq_version = ''2''\<rparr>,
      \<lparr>rq_kind = ''codemodel'', rq_version = ''2''\<rparr>,
      \<lparr>rq_kind = ''toolchains'', rq_version = ''1''\<rparr>]"

text \<open>Line 141.\<close>

definition queryData :: "string \<Rightarrow> request list" where
  "queryData cmakeVersion =
     (if str_gt cmakeVersion ''3.20.5'' then queryDataLegacy else queryDataWithToolchains)"

text \<open>
  \<^verbatim>\<open>JSON.stringify\<close> of \<^verbatim>\<open>{ requests: [ { kind, version }, ... ] }\<close>. The strings
  of the two query objects need no escaping.
\<close>

definition quoted :: "string \<Rightarrow> string" where
  "quoted x = [dquote] @ x @ [dquote]"

fun intercalate :: "string \<Rightarrow> string list \<Rightarrow> string" where
  "intercalate sep [] = []"
| "intercalate sep [x] = x"
| "intercalate sep (x # y # ys) = x @ sep @ intercalate sep (y # ys)"

definition stringify_request :: "request \<Rightarrow> string" where
  "stringify_request r =
     ''{'' @ quoted ''kind'' @ '':'' @ quoted (rq_kind r) @ '','' @
     quoted ''version'' @ '':'' @ quoted (rq_version r) @ ''}''"

definition JSON_stringify :: "request list \<Rightarrow> string" where
  "JSON_stringify requests =
     ''{'' @ quoted ''requests'' @ '':['' @ intercalate '','' (map stringify_request requests)
     @ '']}''"

definition createApiQuery :: "'w node \<Rightarrow> 'w \<Rightarrow> string \<Rightarrow> string \<Rightarrow> js_error + 'w" where
  "createApiQuery env w apiDir cmakeVersion =
     (let queryDir = path_join env [apiDir, ''query'', clientName] in
      case fs_mkdirSync env w queryDir of
        Inl e \<Rightarrow> Inl e
      | Inr w1 \<Rightarrow>
          (let queryFile = path_join env [queryDir, ''query.json'']
           in Inr (fs_writeFile env w1 queryFile (JSON_stringify (queryData cmakeVersion)))))"

subsection \<open>Loading the cache and the codemodel (lines 178-201)\<close>

definition loadCache :: "'w node \<Rightarrow> 'w \<Rightarrow> session \<Rightarrow> string \<Rightarrow> (js_error + unit) \<times> session" where
  "loadCache env w s cacheJsonFile =
     (case parseReplyFile env w cacheJsonFile of
        Inl e \<Rightarrow> (Inl e, s)
      | Inr (CacheDoc entries) \<Rightarrow>
          (Inr (), s\<lparr>cache := fold (\<lambda>entry c. obj_set c (ce_name entry) (ce_value entry))
                                  entries (cache s)\<rparr>)
      | Inr _ \<Rightarrow> (Inl TypeError, s))"

definition loadCodemodel ::
    "'w node \<Rightarrow> 'w \<Rightarrow> session \<Rightarrow> string \<Rightarrow> string \<Rightarrow> (js_error + unit) \<times> session" where
  "loadCodemodel env w s replyDir codemodelJsonFile =
     (case parseReplyFile env w codemodelJsonFile of
        Inl e \<Rightarrow> (Inl e, s)
      | Inr (CodemodelDoc d) \<Rightarrow>
          (case cm_configurations d of
             [] \<Rightarrow> (Inl TypeError, s)
           | targets # _ \<Rightarrow>
               (Inr (),
                s\<lparr>targetFilepaths :=
                     targetFilepaths s @ map (\<lambda>jsonFile. path_join env [replyDir, jsonFile]) targets,
                   sourceRoot := Some (cm_paths_source d)\<rparr>))
      | Inr _ \<Rightarrow> (Inl TypeError, s))"

subsection \<open>Resolving the toolchains (lines 207-258)\<close>

definition no_msvc_message :: string where
  "no_msvc_message = ''Action requires use of MSVC for either/both C or C++.''"

definition toolchain_step :: "toolchain \<Rightarrow> session \<Rightarrow> session" where
  "toolchain_step t s =
     (let info = \<lparr>ci_path = tc_compiler_path t, ci_version = tc_compiler_version t,
                  ci_includes = tc_compiler_includeDirectories t\<rparr> in
      if tc_language t = ''C'' \<and> tc_compiler_id t = ''MSVC''
        then s\<lparr>cCompilerInfo := Some info\<rparr>
      else if tc_language t = ''CXX'' \<and> tc_compiler_id t = ''MSVC''
        then s\<lparr>cxxCompilerInfo := Some info\<rparr>
      else s)"

definition loadToolchains :: "'w node \<Rightarrow> 'w \<Rightarrow> session \<Rightarrow> string \<Rightarrow> (js_error + unit) \<times> session" where
  "loadToolchains env w s toolsetJsonFile =
     (case parseReplyFile env w toolsetJsonFile of
        Inl e \<Rightarrow> (Inl e, s)
      | Inr (ToolchainsDoc toolchains) \<Rightarrow>
          (let s1 = fold toolchain_step toolchains s in
           if cCompilerInfo s1 = None \<and> cxxCompilerInfo s1 = None
           then (Inl (Error no_msvc_message), s1)
           else (Inr (), s1))
      | Inr _ \<Rightarrow> (Inl TypeError, s))"

text \<open>
  One of the two blocks of \<^verbatim>\<open>_loadToolchainsFromCache\<close> (lines 237-244 for C, 246-253
  for C++): the value read from the cache, the test of line 238 (247), and the object
  built when it holds. \<open>Inr None\<close>: the test failed and nothing is assigned.
\<close>

definition compiler_from_cache :: "(string \<rightharpoonup> string) \<Rightarrow> string \<Rightarrow> js_error + compiler_info option" where
  "compiler_from_cache c var =
     (case obj_get c var of
        Str p \<Rightarrow>
          if endsWith p ''cl.exe'' \<and> endsWith p ''cl''
          then (case extractVersionFromCompilerPath p of
                  Inl e \<Rightarrow> Inl e
                | Inr v \<Rightarrow>
                    (case extractIncludesFromCompilerPath p of
                       Inl e \<Rightarrow> Inl e
                     | Inr incs \<Rightarrow> Inr (Some \<lparr>ci_path = p, ci_version = v, ci_includes = incs\<rparr>)))
          else Inr None
      | _ \<Rightarrow> Inl TypeError)"

definition loadToolchainsFromCache :: "session \<Rightarrow> (js_error + unit) \<times> session" where
  "loadToolchainsFromCache s =
     (case compiler_from_cache (cache s) ''CMAKE_C_COMPILER'' of
        Inl e \<Rightarrow> (Inl e, s)
      | Inr c \<Rightarrow>
          (let s1 = (case c of None \<Rightarrow> s | Some info \<Rightarrow> s\<lparr>cCompilerInfo := Some info\<rparr>) in
           case compiler_from_cache (cache s1) ''CMAKE_CXX_COMPILER'' of
             Inl e \<Rightarrow> (Inl e, s1)
           | Inr cxx \<Rightarrow>
               (let s2 = (case cxx of None \<Rightarrow> s1 | Some info \<Rightarrow> s1\<lparr>cxxCompilerInfo := Some info\<rparr>) in
                if cCompilerInfo s2 = None \<and> cxxCompilerInfo s2 = None
                then (Inl (Error no_msvc_message), s2)
                else (Inr (), s2))))"

subsection \<open>Loading the replies (lines 264-300)\<close>

text \<open>
  The loop over the responses of the index, with the three flags and the session; it
  stops at the first exception.
\<close>

fun loadReplyFiles_loop ::
    "'w node \<Rightarrow> 'w \<Rightarrow> string \<Rightarrow> response list \<Rightarrow> bool \<times> bool \<times> bool \<Rightarrow> session
       \<Rightarrow> (js_error + bool \<times> bool \<times> bool) \<times> session" where
  "loadReplyFiles_loop env w replyDir [] flags s = (Inr flags, s)"
| "loadReplyFiles_loop env w replyDir (r # rs) (cacheLoaded, codemodelLoaded, toolchainLoaded) s =
     (if rsp_kind r = ''cache'' then
        (case loadCache env w s (path_join env [replyDir, rsp_jsonFile r]) of
           (Inl e, s1) \<Rightarrow> (Inl e, s1)
         | (Inr _, s1) \<Rightarrow>
             loadReplyFiles_loop env w replyDir rs (True, codemodelLoaded, toolchainLoaded) s1)
      else if rsp_kind r = ''codemodel'' then
        (case loadCodemodel env w s replyDir (path_join env [replyDir, rsp_jsonFile r]) of
           (Inl e, s1) \<Rightarrow> (Inl e, s1)
         | (Inr _, s1) \<Rightarrow>
             loadReplyFiles_loop env w replyDir rs (cacheLoaded, True, toolchainLoaded) s1)
      else if rsp_kind r = ''toolchains'' then
        (case loadToolchains env w s (path_join env [replyDir, rsp_jsonFile r]) of
           (Inl e, s1) \<Rightarrow> (Inl e, s1)
         | (Inr _, s1) \<Rightarrow>
             loadReplyFiles_loop env w replyDir rs (cacheLoaded, codemodelLoaded, True) s1)
      else (Inl (Error (''CMakeApi: Unknown reply response kind received: '' @ rsp_kind r)), s))"

text \<open>
  \<^verbatim>\<open>indexReply.reply[CMakeApi.clientName]["query.json"].responses\<close>: a missing
  member on the way is \<^verbatim>\<open>undefined\<close>, and reading a property of it throws.
\<close>

definition index_responses :: "reply_doc \<Rightarrow> js_error + response list" where
  "index_responses indexReply =
     (case indexReply of
        IndexDoc ix \<Rightarrow>
          (case map_of (idx_reply ix) clientName of
             None \<Rightarrow> Inl TypeError
           | Some queries \<Rightarrow>
               (case map_of queries ''query.json'' of
                  None \<Rightarrow> Inl TypeError
                | Some responses \<Rightarrow> Inr responses))
      | _ \<Rightarrow> Inl TypeError)"

definition loadReplyFiles :: "'w node \<Rightarrow> 'w \<Rightarrow> session \<Rightarrow> string \<Rightarrow> (js_error + unit) \<times> session" where
  "loadReplyFiles env w s apiDir =
     (let replyDir = path_join env [apiDir, ''reply''] in
      case getApiReplyIndex env w apiDir of
        Inl e \<Rightarrow> (Inl e, s)
      | Inr indexReply \<Rightarrow>
          (case index_responses indexReply of
             Inl e \<Rightarrow> (Inl e, s)
           | Inr responses \<Rightarrow>
               (case loadReplyFiles_loop env w replyDir responses (False, False, False) s of
                  (Inl e, s1) \<Rightarrow> (Inl e, s1)
                | (Inr (cacheLoaded, codemodelLoaded, toolchainLoaded), s1) \<Rightarrow>
                    if \<not> cacheLoaded
                      then (Inl (Error ''Failed to load cache response from CMake API''), s1)
                    else if \<not> codemodelLoaded
                      then (Inl (Error ''Failed to load codemodel response from CMake API''), s1)
                    else if \<not> toolchainLoaded then loadToolchainsFromCache s1
                    else (Inr (), s1))))"

subsection \<open>Compile-command arguments (lines 308-331)\<close>

text \<open>
  Line 310 assigns to \<^verbatim>\<open>compileArguments\<close>, which no declaration, parameter or
  function of the file binds. The file is strict code (the directive of line 1, and a
  class body is strict in any case), where an assignment to an identifier that does not
  resolve throws a ReferenceError: nothing after line 310 runs. Line 324 reads
  \<^verbatim>\<open>indexReply\<close>, a local of \<^verbatim>\<open>_loadReplyFiles\<close> that is unbound here just the
  same.
\<close>

definition getCompileGroupArguments :: "compile_group \<Rightarrow> options \<Rightarrow> js_error + string" where
  "getCompileGroupArguments group' opts = Inl (ReferenceError ''compileArguments'')"

subsection \<open>The public methods (lines 347-426)\<close>

definition loadApi :: "'w node \<Rightarrow> 'w \<Rightarrow> session \<Rightarrow> string \<Rightarrow> (js_error + unit) \<times> session \<times> 'w" where
  "loadApi env w s buildRoot =
     (if buildRoot = []
        then (Inl (Error ''CMakeApi: 'buildRoot' can not be null or empty.''), s, w)
      else if \<not> fs_existsSync env w buildRoot
        then (Inl (Error (''Generated build root for CMake not found at: '' @ buildRoot)), s, w)
      else
        (let apiDir = path_join env [buildRoot, ''.cmake/api/v1''] in
         if \<not> fs_existsSync env w apiDir
           then (Inl (Error ''.cmake/api/v1 missing, run CMake config before using action.''), s, w)
         else
           (case getApiReplyIndex env w apiDir of
              Inl e \<Rightarrow> (Inl e, s, w)
            | Inr (IndexDoc indexQuery) \<Rightarrow>
                (let cmakeVersion = idx_version_string indexQuery in
                 if str_lt cmakeVersion ''3.13.7''
                   then (Inl (Error ''Action requires CMake version >= 3.13.7''), s, w)
                 else
                   (let cmakePath = idx_paths_cmake indexQuery in
                    if \<not> fs_existsSync env w cmakePath
                      then (Inl (Error (''Unable to find CMake used to build project at: ''
                                         @ cmakePath)), s, w)
                    else
                      (case createApiQuery env w apiDir cmakeVersion of
                         Inl e \<Rightarrow> (Inl e, s, w)
                       | Inr w1 \<Rightarrow>
                           (case child_process_spawn env w1 cmakePath buildRoot of
                              Inl e \<Rightarrow> (Inl e, s, w1)
                            | Inr w2 \<Rightarrow>
                                (case loadReplyFiles env w2 s apiDir of
                                   (Inl e, s1) \<Rightarrow> (Inl e, s1, w2)
                                 | (Inr _, s1) \<Rightarrow> (Inr (), s1\<lparr>loaded := True\<rparr>, w2))))))
            | Inr _ \<Rightarrow> (Inl TypeError, s, w))))"

text \<open>
  The keys that \<^verbatim>\<open>for (target in this.targetFilepaths)\<close> visits: the indices of the
  array, not its elements.
\<close>

definition for_in_keys :: "'a list \<Rightarrow> nat list" where
  "for_in_keys xs = [0..<length xs]"

definition not_loaded :: js_error where
  "not_loaded = Error ''CMakeApi: getCompileCommands called before API is loaded''"

text \<open>
  \<^verbatim>\<open>compileCommandsIterator\<close> is a generator: the call returns an iterator and runs
  nothing; the body runs as the iterator is advanced. The model gives the commands the
  iterator yields when it is drained, and the exception that ends it, if one does. The
  first statement of the loop body (line 400) calls \<^verbatim>\<open>_parseReplyFile\<close> as a free
  function; only the method \<^verbatim>\<open>this._parseReplyFile\<close> exists, the identifier does not
  resolve, and reading it throws a ReferenceError in the first round, before anything is
  yielded.
\<close>

definition compileCommandsIterator :: "session \<Rightarrow> options \<Rightarrow> compile_command list \<times> js_error option" where
  "compileCommandsIterator s opts =
     (if \<not> loaded s then ([], Some not_loaded)
      else (case for_in_keys (targetFilepaths s) of
              [] \<Rightarrow> ([], None)
            | target # _ \<Rightarrow> ([], Some (ReferenceError ''_parseReplyFile''))))"

subsection \<open>A small file system for the examples\<close>

text \<open>
  An instance of the Node parameters for the concrete examples below: directories with
  their listings and reply files with their parsed contents, both keyed by absolute path
  with \<open>/\<close> as separator; a name that is not such a key does not exist. The child
  process leaves the world as it is.
\<close>

record fx_world =
  fx_dirs :: "(string \<times> string list) list"
  fx_files :: "(string \<times> reply_doc) list"
  fx_written :: "(string \<times> string) list"

definition fx_basename :: "string \<Rightarrow> string" where
  "fx_basename p = rev (takeWhile (\<lambda>c. c \<noteq> CHR ''/'') (rev p))"

definition fx_node :: "fx_world node" where
  "fx_node =
     \<lparr>path_join = intercalate ''/'',
      path_basename = fx_basename,
      fs_existsSync = (\<lambda>w p. p \<in> set (map fst (fx_dirs w)) \<or> p \<in> set (map fst (fx_files w))),
      fs_readdirSync = (\<lambda>w p. case map_of (fx_dirs w) p of
                                 None \<Rightarrow> Inl (Error ''ENOENT'') | Some names \<Rightarrow> Inr names),
      fs_readJson = (\<lambda>w p. case map_of (fx_files w) p of
                              None \<Rightarrow> Inl (Error ''ENOENT'') | Some d \<Rightarrow> Inr d),
      fs_mkdirSync = (\<lambda>w p. if p \<in> set (map fst (fx_dirs w)) then Inl (Error ''EEXIST'')
                             else Inr (w\<lparr>fx_dirs := fx_dirs w @ [(p, [])]\<rparr>)),
      fs_writeFile = (\<lambda>w p content. w\<lparr>fx_written := fx_written w @ [(p, content)]\<rparr>),
      child_process_spawn = (\<lambda>w command args. Inr w)\<rparr>"

section \<open>The loaded flag\<close>

text \<open>No loader step touches \<^verbatim>\<open>this.loaded\<close>; only the last line of loadApi does.\<close>

lemma loadCache_loaded: "loaded (snd (loadCache env w s f)) = loaded s"
  by (simp add: loadCache_def split: sum.splits reply_doc.splits)

lemma loadCodemodel_loaded: "loaded (snd (loadCodemodel env w s d f)) = loaded s"
  by (simp add: loadCodemodel_def split: sum.splits reply_doc.splits list.splits)

lemma fold_toolchain_step_loaded: "loaded (fold toolchain_step ts s) = loaded s"
  by (induction ts arbitrary: s) (simp_all add: toolchain_step_def Let_def)

lemma loadToolchains_loaded: "loaded (snd (loadToolchains env w s f)) = loaded s"
  by (simp add: loadToolchains_def Let_def fold_toolchain_step_loaded
      split: sum.splits reply_doc.splits)

lemma loadToolchainsFromCache_loaded: "loaded (snd (loadToolchainsFromCache s)) = loaded s"
  by (simp add: loadToolchainsFromCache_def Let_def split: sum.splits option.splits)

lemma loadReplyFiles_loop_loaded:
  "loaded (snd (loadReplyFiles_loop env w d rs flags s)) = loaded s"
proof (induction rs arbitrary: flags s)
  case Nil
  show ?case by simp
next
  case (Cons r rs)
  obtain a b c where flags: "flags = (a, b, c)" by (cases flags) auto
  show ?case
    using loadCache_loaded [of env w s "path_join env [d, rsp_jsonFile r]"]
      loadCodemodel_loaded [of env w s d "path_join env [d, rsp_jsonFile r]"]
      loadToolchains_loaded [of env w s "path_join env [d, rsp_jsonFile r]"]
    by (auto simp: flags Cons.IH split: prod.splits sum.splits)
qed

lemma loadReplyFiles_loaded: "loaded (snd (loadReplyFiles env w s apiDir)) = loaded s"
proof -
  have l: "loaded s1 = loaded s"
    if "loadReplyFiles_loop env w d rs flags s = (r, s1)" for d rs flags r s1
    using loadReplyFiles_loop_loaded [of env w d rs flags s] that by simp
  show ?thesis
    by (auto simp: loadReplyFiles_def Let_def loadToolchainsFromCache_loaded l
        split: sum.splits prod.splits)
qed

lemma loadApi_failure_loaded:
  assumes "loadApi env w s buildRoot = (Inl e, s', w')"
  shows "loaded s' = loaded s"
proof -
  have l: "loaded s1 = loaded s" if "loadReplyFiles env w2 s a = (r, s1)" for w2 a r s1
    using loadReplyFiles_loaded [of env w2 s a] that by simp
  show ?thesis
    using assms
    by (auto simp: loadApi_def Let_def l split: if_splits sum.splits prod.splits reply_doc.splits)
qed

text \<open>
  The sessions on which loadApi has not completed successfully: the session the
  constructor returns, and every session a failed call of loadApi leaves behind, in
  whatever world the call ran.
\<close>

inductive never_loaded :: "'w node \<Rightarrow> session \<Rightarrow> bool" for env :: "'w node" where
  fresh: "never_loaded env CMakeApi_new"
| failed: "never_loaded env s \<Longrightarrow> loadApi env w s buildRoot = (Inl e, s', w')
             \<Longrightarrow> never_loaded env s'"

lemma never_loaded_unloaded: "never_loaded env s \<Longrightarrow> \<not> loaded s"
  by (induction rule: never_loaded.induct) (simp_all add: CMakeApi_new_def loadApi_failure_loaded)

definition api_dir_missing :: js_error where
  "api_dir_missing = Error ''.cmake/api/v1 missing, run CMake config before using action.''"

text \<open>
  Claim C7. On every session on which loadApi has not completed successfully, also after
  any number of failed loadApi calls, the loaded flag is false and advancing the iterator
  of compileCommandsIterator yields nothing and fails with the NotLoaded usage error. In
  particular a call of loadApi on an existing build directory without \<^verbatim>\<open>.cmake/api/v1\<close>
  fails with the error that says so and leaves session and world as they were.
\<close>

theorem unloaded_session_rejects_iteration:
  assumes "never_loaded env s"
  shows "\<not> loaded s \<and> compileCommandsIterator s opts = ([], Some not_loaded)
         \<and> (buildRoot \<noteq> [] \<and> fs_existsSync env w buildRoot
              \<and> \<not> fs_existsSync env w (path_join env [buildRoot, ''.cmake/api/v1''])
            \<longrightarrow> loadApi env w s buildRoot = (Inl api_dir_missing, s, w))"
  using never_loaded_unloaded [OF assms]
  by (simp add: compileCommandsIterator_def loadApi_def api_dir_missing_def)

definition fx_unconfigured :: fx_world where
  "fx_unconfigured = \<lparr>fx_dirs = [(''/build'', [''CMakeCache.txt''])], fx_files = [], fx_written = []\<rparr>"

text \<open>
  A world in which a load fails late: the index names a cache response only, so the cache
  is loaded into the session before loadApi throws for the missing codemodel response.
\<close>

definition fx_cache_only_index :: reply_doc where
  "fx_cache_only_index =
     IndexDoc \<lparr>idx_version_string = ''3.19.0'', idx_paths_cmake = ''/usr/bin/cmake'',
       idx_reply = [(clientName, [(''query.json'',
          [\<lparr>rsp_kind = ''cache'', rsp_jsonFile = ''cache-v2.json''\<rparr>])])]\<rparr>"

definition fx_no_codemodel :: fx_world where
  "fx_no_codemodel =
     \<lparr>fx_dirs = [(''/build'', [''.cmake'']), (''/build/.cmake/api/v1'', [''query'', ''reply'']),
                 (''/build/.cmake/api/v1/query'', []),
                 (''/build/.cmake/api/v1/reply'', [''cache-v2.json'', ''index-1.json''])],
      fx_files = [(''/usr/bin/cmake'', CacheDoc []),
                  (''index-1.json'', fx_cache_only_index),
                  (''/build/.cmake/api/v1/reply/cache-v2.json'',
                     CacheDoc [\<lparr>ce_name = ''CMAKE_CXX_COMPILER'', ce_value = ''cl.exe'',
                                 ce_type = ''FILEPATH''\<rparr>])],
      fx_written = []\<rparr>"

definition fx_half_loaded :: session where
  "fx_half_loaded = CMakeApi_new\<lparr>cache := [''CMAKE_CXX_COMPILER'' \<mapsto> ''cl.exe'']\<rparr>"

lemma fx_failed_load:
  "loadApi fx_node fx_no_codemodel CMakeApi_new ''/build''
     = (Inl (Error ''Failed to load codemodel response from CMake API''), fx_half_loaded,
        fx_no_codemodel\<lparr>fx_dirs := fx_dirs fx_no_codemodel
                            @ [(''/build/.cmake/api/v1/query/client-msvc-ca-action'', [])],
                         fx_written := [(''/build/.cmake/api/v1/query/client-msvc-ca-action/query.json'',
                                         JSON_stringify queryDataWithToolchains)]\<rparr>)"
  by (simp add: loadApi_def fx_node_def fx_no_codemodel_def getApiReplyIndex_def select_index_def
      index_step_def startsWith_def fx_basename_def parseReplyFile_def fx_cache_only_index_def
      less_char_def createApiQuery_def clientName_def loadReplyFiles_def index_responses_def
      loadCache_def CMakeApi_new_def Let_def fx_half_loaded_def obj_set_def proto_name_def
      queryData_def str_gt_def)

theorem unloaded_session_rejects_iteration_witness:
  "\<not> loaded fx_half_loaded
   \<and> compileCommandsIterator fx_half_loaded \<lparr>useExternalIncludes = False\<rparr> = ([], Some not_loaded)
   \<and> loadApi fx_node fx_unconfigured fx_half_loaded ''/build''
       = (Inl api_dir_missing, fx_half_loaded, fx_unconfigured)"
proof -
  have n: "never_loaded fx_node fx_half_loaded"
    using never_loaded.failed [OF never_loaded.fresh fx_failed_load] .
  have h: "''/build'' \<noteq> [] \<and> fs_existsSync fx_node fx_unconfigured ''/build''
              \<and> \<not> fs_existsSync fx_node fx_unconfigured (path_join fx_node [''/build'', ''.cmake/api/v1''])"
    by (simp add: fx_node_def fx_unconfigured_def)
  show ?thesis
    using unloaded_session_rejects_iteration [OF n, of "\<lparr>useExternalIncludes = False\<rparr>" "''/build''" fx_unconfigured] h
    by simp
qed

section \<open>The cache model\<close>

lemma fold_store_last:
  assumes "n \<noteq> proto_name" and "filter (\<lambda>x. ce_name x = n) entries \<noteq> []"
  shows "fold (\<lambda>entry c. obj_set c (ce_name entry) (ce_value entry)) entries c0 n
           = Some (ce_value (last (filter (\<lambda>x. ce_name x = n) entries)))"
  using assms(2)
proof (induction entries rule: rev_induct)
  case Nil
  then show ?case by simp
next
  case (snoc x xs)
  show ?case
  proof (cases "ce_name x = n")
    case True
    then show ?thesis using assms(1) by (simp add: obj_set_def)
  next
    case False
    then have "filter (\<lambda>x. ce_name x = n) xs \<noteq> []" using snoc.prems by simp
    then show ?thesis using snoc.IH False by (auto simp add: obj_set_def)
  qed
qed

lemma loadCache_result:
  assumes "parseReplyFile env w file = Inr (CacheDoc entries)"
  shows "loadCache env w s file
           = (Inr (), s\<lparr>cache := fold (\<lambda>entry c. obj_set c (ce_name entry) (ce_value entry))
                                      entries (cache s)\<rparr>)"
  using assms by (simp add: loadCache_def)

text \<open>
  Repeated names: when two or more entries have the same name, and the name is not
  \<^verbatim>\<open>__proto__\<close>, loading raises no error and the cache model maps the name to the
  string value of the last such entry in document order.
\<close>

lemma loadCache_last_duplicate_wins:
  assumes "parseReplyFile env w file = Inr (CacheDoc entries)"
    and "2 \<le> length (filter (\<lambda>x. ce_name x = n) entries)"
    and "n \<noteq> proto_name"
  shows "fst (loadCache env w s file) = Inr ()
         \<and> obj_get (cache (snd (loadCache env w s file))) n
             = Str (ce_value (last (filter (\<lambda>x. ce_name x = n) entries)))"
proof -
  have "filter (\<lambda>x. ce_name x = n) entries \<noteq> []" using assms(2) by auto
  then show ?thesis
    using fold_store_last [OF assms(3), of entries "cache s"]
    by (simp add: loadCache_result [OF assms(1)] obj_get_def)
qed

lemma filter_distinct_name:
  assumes "distinct (map ce_name entries)" and "e \<in> set entries"
  shows "filter (\<lambda>x. ce_name x = ce_name e) entries = [e]"
  using assms
proof (induction entries)
  case Nil
  then show ?case by simp
next
  case (Cons x xs)
  show ?case
  proof (cases "x = e")
    case True
    have "filter (\<lambda>y. ce_name y = ce_name e) xs = []"
      using Cons.prems(1) True by (force simp: filter_empty_conv image_iff)
    then show ?thesis using True by simp
  next
    case False
    then have "e \<in> set xs" using Cons.prems(2) by simp
    moreover have "ce_name x \<noteq> ce_name e" using Cons.prems(1) \<open>e \<in> set xs\<close> by auto
    ultimately show ?thesis using Cons by simp
  qed
qed

text \<open>
  Claim C6, as amended. For every cache response document, loading it raises no error
  and yields a cache model in which the name of every entry that is the last entry of
  its name in document order, and is not named \<^verbatim>\<open>__proto__\<close>, maps to exactly that
  entry's string value, whatever the declared type of the entry. Every entry whose name
  occurs once in the document is the last of its name.
\<close>

theorem loadCache_stores_every_entry:
  assumes "parseReplyFile env w file = Inr (CacheDoc entries)"
    and "e \<in> set entries"
    and "last (filter (\<lambda>x. ce_name x = ce_name e) entries) = e"
    and "ce_name e \<noteq> proto_name"
  shows "fst (loadCache env w s file) = Inr ()
         \<and> obj_get (cache (snd (loadCache env w s file))) (ce_name e) = Str (ce_value e)"
proof -
  have "filter (\<lambda>x. ce_name x = ce_name e) entries \<noteq> []"
    using assms(2) by (auto simp: filter_empty_conv)
  then show ?thesis
    using fold_store_last [OF assms(4), of entries "cache s"] assms(3)
    by (simp add: loadCache_result [OF assms(1)] obj_get_def)
qed

text \<open>In a document whose entry names are pairwise distinct every entry is stored.\<close>

lemma loadCache_distinct_names:
  assumes "parseReplyFile env w file = Inr (CacheDoc entries)"
    and "distinct (map ce_name entries)"
    and "e \<in> set entries"
    and "ce_name e \<noteq> proto_name"
  shows "obj_get (cache (snd (loadCache env w s file))) (ce_name e) = Str (ce_value e)"
proof -
  have "filter (\<lambda>x. ce_name x = ce_name e) entries = [e]"
    using filter_distinct_name [OF assms(2,3)] .
  then show ?thesis
    using fold_store_last [OF assms(4), of entries "cache s"]
    by (simp add: loadCache_result [OF assms(1)] obj_get_def)
qed

text \<open>A reply directory that holds one cache response with the given entries.\<close>

definition fx_cache_world :: "cache_entry list \<Rightarrow> fx_world" where
  "fx_cache_world entries =
     \<lparr>fx_dirs = [(''/build/.cmake/api/v1/reply'', [''cache-v2.json''])],
      fx_files = [(''/build/.cmake/api/v1/reply/cache-v2.json'', CacheDoc entries)],
      fx_written = []\<rparr>"

definition fx_cache_file :: string where
  "fx_cache_file = ''/build/.cmake/api/v1/reply/cache-v2.json''"

lemma fx_parse_cache:
  "parseReplyFile fx_node (fx_cache_world entries) fx_cache_file = Inr (CacheDoc entries)"
  by (simp add: parseReplyFile_def fx_node_def fx_cache_world_def fx_cache_file_def)

definition fx_entry :: "string \<Rightarrow> string \<Rightarrow> string \<Rightarrow> cache_entry" where
  "fx_entry n v t = \<lparr>ce_name = n, ce_value = v, ce_type = t\<rparr>"

theorem loadCache_stores_every_entry_witness:
  "obj_get (cache (snd (loadCache fx_node
       (fx_cache_world [fx_entry ''A'' ''1'' ''STRING'', fx_entry ''B'' ''2'' ''BOOL''])
       CMakeApi_new fx_cache_file))) ''A'' = Str ''1''
   \<and> obj_get (cache (snd (loadCache fx_node
       (fx_cache_world [fx_entry ''A'' ''1'' ''STRING'', fx_entry ''B'' ''2'' ''BOOL''])
       CMakeApi_new fx_cache_file))) ''B'' = Str ''2''
   \<and> obj_get (cache (snd (loadCache fx_node
       (fx_cache_world [fx_entry ''A'' ''1'' ''STRING'', fx_entry ''A'' ''2'' ''STRING'',
                        fx_entry ''B'' ''3'' ''PATH''])
       CMakeApi_new fx_cache_file))) ''B'' = Str ''3''
   \<and> obj_get (cache (snd (loadCache fx_node
       (fx_cache_world [fx_entry ''A'' ''1'' ''STRING'', fx_entry ''A'' ''2'' ''STRING'',
                        fx_entry ''B'' ''3'' ''PATH''])
       CMakeApi_new fx_cache_file))) ''A'' = Str ''2''"
proof -
  let ?es = "[fx_entry ''A'' ''1'' ''STRING'', fx_entry ''B'' ''2'' ''BOOL'']"
  let ?ds = "[fx_entry ''A'' ''1'' ''STRING'', fx_entry ''A'' ''2'' ''STRING'',
              fx_entry ''B'' ''3'' ''PATH'']"
  have a: "fx_entry ''A'' ''1'' ''STRING'' \<in> set ?es" by simp
  have b: "fx_entry ''B'' ''2'' ''BOOL'' \<in> set ?es" by simp
  have la: "last (filter (\<lambda>x. ce_name x = ce_name (fx_entry ''A'' ''1'' ''STRING'')) ?es)
              = fx_entry ''A'' ''1'' ''STRING''"
    by (simp add: fx_entry_def)
  have lb: "last (filter (\<lambda>x. ce_name x = ce_name (fx_entry ''B'' ''2'' ''BOOL'')) ?es)
              = fx_entry ''B'' ''2'' ''BOOL''"
    by (simp add: fx_entry_def)
  have na: "ce_name (fx_entry ''A'' ''1'' ''STRING'') \<noteq> proto_name"
    by (simp add: fx_entry_def proto_name_def)
  have nb: "ce_name (fx_entry ''B'' ''2'' ''BOOL'') \<noteq> proto_name"
    by (simp add: fx_entry_def proto_name_def)
  have c: "fx_entry ''B'' ''3'' ''PATH'' \<in> set ?ds" by simp
  have d: "fx_entry ''A'' ''2'' ''STRING'' \<in> set ?ds" by simp
  have lc: "last (filter (\<lambda>x. ce_name x = ce_name (fx_entry ''B'' ''3'' ''PATH'')) ?ds)
              = fx_entry ''B'' ''3'' ''PATH''"
    by (simp add: fx_entry_def)
  have ld: "last (filter (\<lambda>x. ce_name x = ce_name (fx_entry ''A'' ''2'' ''STRING'')) ?ds)
              = fx_entry ''A'' ''2'' ''STRING''"
    by (simp add: fx_entry_def)
  have nc: "ce_name (fx_entry ''B'' ''3'' ''PATH'') \<noteq> proto_name"
    by (simp add: fx_entry_def proto_name_def)
  have nd: "ce_name (fx_entry ''A'' ''2'' ''STRING'') \<noteq> proto_name"
    by (simp add: fx_entry_def proto_name_def)
  show ?thesis
    using loadCache_stores_every_entry [OF fx_parse_cache a la na, of CMakeApi_new]
      loadCache_stores_every_entry [OF fx_parse_cache b lb nb, of CMakeApi_new]
      loadCache_stores_every_entry [OF fx_parse_cache c lc nc, of CMakeApi_new]
      loadCache_stores_every_entry [OF fx_parse_cache d ld nd, of CMakeApi_new]
    by (simp add: fx_entry_def)
qed

text \<open>
  Claim C6 as stated fails on two documents. With the entries \<open>A = 1\<close>, \<open>A = 2\<close> the
  name of the first entry does not map to the value of the first entry. With the one
  entry \<open>__proto__ = 1\<close> the name maps to no string at all.
\<close>

theorem loadCache_every_entry_counterexample:
  "obj_get (cache (snd (loadCache fx_node
       (fx_cache_world [fx_entry ''A'' ''1'' ''STRING'', fx_entry ''A'' ''2'' ''STRING''])
       CMakeApi_new fx_cache_file))) (ce_name (fx_entry ''A'' ''1'' ''STRING''))
     \<noteq> Str (ce_value (fx_entry ''A'' ''1'' ''STRING''))
   \<and> obj_get (cache (snd (loadCache fx_node
       (fx_cache_world [fx_entry ''__proto__'' ''1'' ''STRING''])
       CMakeApi_new fx_cache_file))) (ce_name (fx_entry ''__proto__'' ''1'' ''STRING''))
     \<noteq> Str (ce_value (fx_entry ''__proto__'' ''1'' ''STRING''))"
  by (simp add: loadCache_result [OF fx_parse_cache] fx_entry_def CMakeApi_new_def obj_get_def
      obj_set_def proto_name_def Object_prototype_def)

lemma loadCache_last_duplicate_wins_example:
  "fst (loadCache fx_node
       (fx_cache_world [fx_entry ''A'' ''1'' ''STRING'', fx_entry ''B'' ''x'' ''PATH'', fx_entry ''A'' ''2'' ''BOOL''])
       CMakeApi_new fx_cache_file) = Inr ()
   \<and> obj_get (cache (snd (loadCache fx_node
       (fx_cache_world [fx_entry ''A'' ''1'' ''STRING'', fx_entry ''B'' ''x'' ''PATH'', fx_entry ''A'' ''2'' ''BOOL''])
       CMakeApi_new fx_cache_file))) ''A'' = Str ''2''"
proof -
  let ?es = "[fx_entry ''A'' ''1'' ''STRING'', fx_entry ''B'' ''x'' ''PATH'', fx_entry ''A'' ''2'' ''BOOL'']"
  have two: "2 \<le> length (filter (\<lambda>x. ce_name x = ''A'') ?es)" by (simp add: fx_entry_def)
  have n: "''A'' \<noteq> proto_name" by (simp add: proto_name_def)
  show ?thesis
    using loadCache_last_duplicate_wins [OF fx_parse_cache two n, of CMakeApi_new]
    by (simp add: fx_entry_def)
qed

text \<open>
  Claim C10 does not hold of the code for the name \<^verbatim>\<open>__proto__\<close>. With two entries
  of that name loading raises no error, but nothing is stored: the cache model does not
  map the name to the value \<open>b\<close> of the last entry, it gives what the name inherits from
  \<^verbatim>\<open>Object.prototype\<close>. The comment of line 181 promises that every name and
  string-value pair is stored.
\<close>

theorem loadCache_proto_not_stored:
  "2 \<le> length (filter (\<lambda>x. ce_name x = ''__proto__'')
                 [fx_entry ''__proto__'' ''a'' ''STRING'', fx_entry ''__proto__'' ''b'' ''STRING''])
   \<and> fst (loadCache fx_node
       (fx_cache_world [fx_entry ''__proto__'' ''a'' ''STRING'', fx_entry ''__proto__'' ''b'' ''STRING''])
       CMakeApi_new fx_cache_file) = Inr ()
   \<and> cache (snd (loadCache fx_node
       (fx_cache_world [fx_entry ''__proto__'' ''a'' ''STRING'', fx_entry ''__proto__'' ''b'' ''STRING''])
       CMakeApi_new fx_cache_file)) ''__proto__'' = None
   \<and> obj_get (cache (snd (loadCache fx_node
       (fx_cache_world [fx_entry ''__proto__'' ''a'' ''STRING'', fx_entry ''__proto__'' ''b'' ''STRING''])
       CMakeApi_new fx_cache_file))) ''__proto__'' = Inherited
   \<and> Inherited \<noteq> Str ''b''"
  by (simp add: loadCache_result [OF fx_parse_cache] fx_entry_def CMakeApi_new_def obj_get_def
      obj_set_def proto_name_def Object_prototype_def)

text \<open>The declared types play no part: retyping the entries changes nothing.\<close>

lemma loadCache_ignores_type:
  assumes "parseReplyFile env w file = Inr (CacheDoc entries)"
    and "parseReplyFile env' w' file' = Inr (CacheDoc (map (\<lambda>e. e\<lparr>ce_type := t e\<rparr>) entries))"
  shows "loadCache env' w' s file' = loadCache env w s file"
proof -
  have "fold (\<lambda>entry c. obj_set c (ce_name entry) (ce_value entry))
          (map (\<lambda>e. e\<lparr>ce_type := t e\<rparr>) entries) c0
        = fold (\<lambda>entry c. obj_set c (ce_name entry) (ce_value entry)) entries c0" for c0
    by (induction entries arbitrary: c0) simp_all
  then show ?thesis
    by (simp add: loadCache_result [OF assms(1)] loadCache_result [OF assms(2)])
qed

section \<open>The query descriptor\<close>

text \<open>
  Versions as the claim reads them, dotted numeric version strings: the string is split
  at the dots, every part is read as a decimal number, and the lists of numbers are
  compared from the left, a missing part counting as zero. These four definitions follow
  the words of the claim, not the code, which has no such comparison.
\<close>

fun split_on :: "char \<Rightarrow> string \<Rightarrow> string list" where
  "split_on sep [] = [[]]"
| "split_on sep (c # cs) =
     (if c = sep then [] # split_on sep cs
      else (case split_on sep cs of [] \<Rightarrow> [[c]] | part # parts \<Rightarrow> (c # part) # parts))"

definition decimal :: "string \<Rightarrow> nat" where
  "decimal ds = foldl (\<lambda>n c. 10 * n + (of_char c - 48)) 0 ds"

fun numeric_le :: "nat list \<Rightarrow> nat list \<Rightarrow> bool" where
  "numeric_le [] ys = True"
| "numeric_le (x # xs) [] = (x = 0 \<and> numeric_le xs [])"
| "numeric_le (x # xs) (y # ys) = (x < y \<or> (x = y \<and> numeric_le xs ys))"

definition spec_version_le :: "string \<Rightarrow> string \<Rightarrow> bool" where
  "spec_version_le a b =
     numeric_le (map decimal (split_on CHR ''.'' a)) (map decimal (split_on CHR ''.'' b))"

text \<open>A descriptor requests a kind when one of its requests has that kind.\<close>

definition requested :: "request list \<Rightarrow> string \<Rightarrow> bool" where
  "requested requests kind = (kind \<in> set (map rq_kind requests))"

lemma queryData_kinds:
  "\<lparr>rq_kind = ''cache'', rq_version = ''2''\<rparr> \<in> set (queryData v)"
  "\<lparr>rq_kind = ''codemodel'', rq_version = ''2''\<rparr> \<in> set (queryData v)"
  "(\<lparr>rq_kind = ''toolchains'', rq_version = ''1''\<rparr> \<in> set (queryData v)) = (\<not> str_gt v ''3.20.5'')"
  "requested (queryData v) ''toolchains'' = (\<not> str_gt v ''3.20.5'')"
  by (simp_all add: queryData_def queryDataLegacy_def queryDataWithToolchains_def requested_def)

text \<open>
  What query construction does: when the query directory can be created, it writes to
  \<^verbatim>\<open>query.json\<close> in that directory the JSON text of a descriptor that requests
  \<open>cache\<close> (version 2) and \<open>codemodel\<close> (version 2) unconditionally, and requests
  \<open>toolchains\<close> (version 1) exactly when the test of line 141 fails, that is when the
  version string is not greater than \<^verbatim>\<open>"3.20.5"\<close> in the string order of the language.
\<close>

lemma createApiQuery_requests:
  assumes "fs_mkdirSync env w (path_join env [apiDir, ''query'', clientName]) = Inr w1"
  shows "createApiQuery env w apiDir v
           = Inr (fs_writeFile env w1
                    (path_join env [path_join env [apiDir, ''query'', clientName], ''query.json''])
                    (JSON_stringify (queryData v)))
         \<and> \<lparr>rq_kind = ''cache'', rq_version = ''2''\<rparr> \<in> set (queryData v)
         \<and> \<lparr>rq_kind = ''codemodel'', rq_version = ''2''\<rparr> \<in> set (queryData v)
         \<and> (requested (queryData v) ''toolchains'' = (\<not> str_gt v ''3.20.5''))
         \<and> (requested (queryData v) ''toolchains''
              = (\<lparr>rq_kind = ''toolchains'', rq_version = ''1''\<rparr> \<in> set (queryData v)))"
  using assms by (simp add: createApiQuery_def Let_def queryData_kinds)

text \<open>A configured build directory whose query directory has no client directory yet.\<close>

definition fx_configured :: fx_world where
  "fx_configured =
     \<lparr>fx_dirs = [(''/build'', [''.cmake'']), (''/build/.cmake/api/v1'', [''query'', ''reply'']),
                 (''/build/.cmake/api/v1/query'', [])],
      fx_files = [], fx_written = []\<rparr>"

lemma createApiQuery_requests_example:
  "fx_written (projr (createApiQuery fx_node fx_configured ''/build/.cmake/api/v1'' ''3.20.5''))
     = [(''/build/.cmake/api/v1/query/client-msvc-ca-action/query.json'',
         JSON_stringify queryDataWithToolchains)]
   \<and> requested (queryData ''3.20.5'') ''toolchains''
   \<and> \<not> requested (queryData ''3.21.0'') ''toolchains''"
proof -
  have h: "fs_mkdirSync fx_node fx_configured (path_join fx_node [''/build/.cmake/api/v1'', ''query'', clientName])
             = Inr (fx_configured\<lparr>fx_dirs := fx_dirs fx_configured
                      @ [(''/build/.cmake/api/v1/query/client-msvc-ca-action'', [])]\<rparr>)"
    by (simp add: fx_node_def fx_configured_def clientName_def)
  have a: "\<not> str_gt ''3.20.5'' ''3.20.5''" by (simp add: str_gt_def)
  have b: "str_gt ''3.21.0'' ''3.20.5''" by (simp add: str_gt_def less_char_def)
  have q: "queryData ''3.20.5'' = queryDataWithToolchains" using a by (simp add: queryData_def)
  have p: "path_join fx_node [path_join fx_node [''/build/.cmake/api/v1'', ''query'', clientName], ''query.json'']
             = ''/build/.cmake/api/v1/query/client-msvc-ca-action/query.json''"
    by (simp add: fx_node_def clientName_def)
  have wr: "fx_written (fs_writeFile fx_node w f c) = fx_written w @ [(f, c)]" for w f c
    by (simp add: fx_node_def)
  show ?thesis
    using createApiQuery_requests [OF h, of "''3.20.5''"]
      createApiQuery_requests [OF h, of "''3.21.0''"] a b
    by (simp add: p q wr fx_configured_def)
qed

text \<open>
  Claim C4 does not hold of the code, which compares the version strings code unit by
  code unit where the claim compares versions. The version \<^verbatim>\<open>"3.9.0"\<close> is at or below
  3.20.5 and passes the minimum check of line 364, yet the descriptor written does not
  request \<open>toolchains\<close>, because \<^verbatim>\<open>"3.9.0" > "3.20.5"\<close> holds for strings. The version
  \<^verbatim>\<open>"3.20.10"\<close> is above 3.20.5, yet its descriptor does request \<open>toolchains\<close>. The
  same comparison on line 364 rejects \<^verbatim>\<open>"3.100.0"\<close> as older than 3.13.7.
\<close>

theorem createApiQuery_compares_strings:
  "spec_version_le ''3.9.0'' ''3.20.5''
   \<and> \<not> str_lt ''3.9.0'' ''3.13.7''
   \<and> fx_written (projr (createApiQuery fx_node fx_configured ''/build/.cmake/api/v1'' ''3.9.0''))
     = [(''/build/.cmake/api/v1/query/client-msvc-ca-action/query.json'',
         JSON_stringify queryDataLegacy)]
   \<and> \<not> requested queryDataLegacy ''toolchains''
   \<and> \<not> spec_version_le ''3.20.10'' ''3.20.5''
   \<and> fx_written (projr (createApiQuery fx_node fx_configured ''/build/.cmake/api/v1'' ''3.20.10''))
     = [(''/build/.cmake/api/v1/query/client-msvc-ca-action/query.json'',
         JSON_stringify queryDataWithToolchains)]
   \<and> requested queryDataWithToolchains ''toolchains''
   \<and> str_lt ''3.100.0'' ''3.13.7''"
  by (simp add: spec_version_le_def decimal_def createApiQuery_def fx_node_def fx_configured_def
      clientName_def queryData_def str_gt_def less_char_def requested_def queryDataLegacy_def
      queryDataWithToolchains_def)

text \<open>The two descriptors differ as JSON texts too.\<close>

lemma stringify_differs: "JSON_stringify queryDataLegacy \<noteq> JSON_stringify queryDataWithToolchains"
  by (simp add: JSON_stringify_def queryDataLegacy_def queryDataWithToolchains_def
      stringify_request_def quoted_def)

section \<open>Toolchain resolution\<close>

text \<open>
  The test of lines 238 and 247 asks for a path that ends in \<^verbatim>\<open>cl.exe\<close> and in
  \<^verbatim>\<open>cl\<close> at once. No string does, since the last character would be both \<open>e\<close> and
  \<open>l\<close>.
\<close>

lemma endsWith_last: "endsWith s t \<Longrightarrow> t \<noteq> [] \<Longrightarrow> last s = last t"
proof -
  assume a: "endsWith s t" and b: "t \<noteq> []"
  then have "s = take (length s - length t) s @ t"
    by (metis append_take_drop_id endsWith_def)
  then show ?thesis using b by (metis last_appendR)
qed

lemma cl_exe_and_cl: "\<not> (endsWith p ''cl.exe'' \<and> endsWith p ''cl'')"
proof
  assume "endsWith p ''cl.exe'' \<and> endsWith p ''cl''"
  then have "last p = last ''cl.exe''" and "last p = last ''cl''"
    using endsWith_last [of p "''cl.exe''"] endsWith_last [of p "''cl''"] by simp_all
  then show False by simp
qed

lemma compiler_from_cache_never_some: "compiler_from_cache c var \<noteq> Inr (Some info)"
  by (simp add: compiler_from_cache_def cl_exe_and_cl split: property_value.splits)

text \<open>
  So the cache fallback assigns no compiler for any cache: it leaves the session as it
  found it, and on a session without a compiler it always throws.
\<close>

lemma loadToolchainsFromCache_never_resolves:
  "snd (loadToolchainsFromCache s) = s
   \<and> (cCompilerInfo s = None \<and> cxxCompilerInfo s = None \<longrightarrow> isl (fst (loadToolchainsFromCache s)))"
proof -
  have c: "x = None" if "compiler_from_cache c var = Inr x" for c var x
    using that compiler_from_cache_never_some [of c var] by (cases x) auto
  show ?thesis
    by (auto simp: loadToolchainsFromCache_def Let_def split: sum.splits dest!: c)
qed

text \<open>
  The rule of the specification for the cache fallback, in its words: a compiler path is
  accepted when its filename, the part after the last separator, is the expected
  executable name \<^verbatim>\<open>cl.exe\<close>.
\<close>

definition spec_filename :: "string \<Rightarrow> string" where
  "spec_filename p = rev (takeWhile (\<lambda>c. c \<noteq> CHR ''/'' \<and> c \<noteq> backslash) (rev p))"

definition spec_accepts :: "string \<Rightarrow> bool" where
  "spec_accepts p = (spec_filename p = ''cl.exe'')"

definition fx_cl :: string where
  "fx_cl = ''C:/VS/VC/Tools/MSVC/14.29.30133/bin/HostX64/x64/cl.exe''"

definition fx_msvc_cache :: session where
  "fx_msvc_cache =
     CMakeApi_new\<lparr>cache := [''CMAKE_C_COMPILER'' \<mapsto> fx_cl, ''CMAKE_CXX_COMPILER'' \<mapsto> fx_cl]\<rparr>"

text \<open>
  Claim C3 does not hold of the code. On a cache whose \<^verbatim>\<open>CMAKE_C_COMPILER\<close> and
  \<^verbatim>\<open>CMAKE_CXX_COMPILER\<close> are a path with the filename \<^verbatim>\<open>cl.exe\<close>, which the
  specification accepts, the test of line 238 fails, no CompilerInfo is produced and the
  fallback throws the error for a project without MSVC.
\<close>

theorem loadToolchainsFromCache_rejects_cl_exe:
  "spec_accepts fx_cl
   \<and> obj_get (cache fx_msvc_cache) ''CMAKE_C_COMPILER'' = Str fx_cl
   \<and> compiler_from_cache (cache fx_msvc_cache) ''CMAKE_C_COMPILER'' = Inr None
   \<and> loadToolchainsFromCache fx_msvc_cache = (Inl (Error no_msvc_message), fx_msvc_cache)"
  by (simp add: spec_accepts_def spec_filename_def fx_cl_def fx_msvc_cache_def CMakeApi_new_def
      backslash_def loadToolchainsFromCache_def compiler_from_cache_def obj_get_def endsWith_def)

definition fx_clang :: string where
  "fx_clang = ''C:/LLVM/bin/clang.exe''"

definition fx_mixed_cache :: session where
  "fx_mixed_cache =
     CMakeApi_new\<lparr>cache := [''CMAKE_C_COMPILER'' \<mapsto> fx_clang, ''CMAKE_CXX_COMPILER'' \<mapsto> fx_cl]\<rparr>"

text \<open>
  Claim C8 does not hold of the code on the cache-fallback path. With clang as the C
  compiler and \<^verbatim>\<open>cl.exe\<close> as the C++ compiler, one language resolves by the rule of
  the specification, and the fallback still throws the error for a project without MSVC.
\<close>

theorem loadToolchainsFromCache_fails_with_msvc:
  "spec_accepts (the (cache fx_mixed_cache ''CMAKE_CXX_COMPILER''))
   \<and> loadToolchainsFromCache fx_mixed_cache = (Inl (Error no_msvc_message), fx_mixed_cache)"
  by (simp add: spec_accepts_def spec_filename_def fx_cl_def fx_clang_def fx_mixed_cache_def
      CMakeApi_new_def backslash_def loadToolchainsFromCache_def compiler_from_cache_def
      obj_get_def endsWith_def)

text \<open>
  A project with C++ only has no \<^verbatim>\<open>CMAKE_C_COMPILER\<close> in its cache: line 238 then
  calls \<^verbatim>\<open>endsWith\<close> on \<^verbatim>\<open>undefined\<close> and the fallback ends with a TypeError.
\<close>

definition fx_cxx_only :: session where
  "fx_cxx_only = CMakeApi_new\<lparr>cache := [''CMAKE_CXX_COMPILER'' \<mapsto> fx_cl]\<rparr>"

lemma loadToolchainsFromCache_missing_entry:
  "loadToolchainsFromCache fx_cxx_only = (Inl TypeError, fx_cxx_only)"
  by (simp add: fx_cxx_only_def CMakeApi_new_def loadToolchainsFromCache_def
      compiler_from_cache_def obj_get_def Object_prototype_def)

text \<open>
  On the toolchains-response path the claim does hold for a session that has no compiler
  yet: the load throws that error exactly when no toolchain entry is an MSVC compiler for
  C or for C++.
\<close>

definition is_msvc :: "string \<Rightarrow> toolchain \<Rightarrow> bool" where
  "is_msvc lang t = (tc_language t = lang \<and> tc_compiler_id t = ''MSVC'')"

lemma fold_toolchain_step_c:
  "(cCompilerInfo (fold toolchain_step ts s) = None)
     = (cCompilerInfo s = None \<and> filter (is_msvc ''C'') ts = [])"
  by (induction ts arbitrary: s) (auto simp: toolchain_step_def Let_def is_msvc_def)

lemma fold_toolchain_step_cxx:
  "(cxxCompilerInfo (fold toolchain_step ts s) = None)
     = (cxxCompilerInfo s = None \<and> filter (is_msvc ''CXX'') ts = [])"
  by (induction ts arbitrary: s) (auto simp: toolchain_step_def Let_def is_msvc_def)

lemma loadToolchains_fails_iff:
  assumes "parseReplyFile env w file = Inr (ToolchainsDoc ts)"
    and "cCompilerInfo s = None" and "cxxCompilerInfo s = None"
  shows "fst (loadToolchains env w s file)
           = (if filter (is_msvc ''C'') ts = [] \<and> filter (is_msvc ''CXX'') ts = []
              then Inl (Error no_msvc_message) else Inr ())"
  using assms
  by (simp add: loadToolchains_def Let_def fold_toolchain_step_c fold_toolchain_step_cxx)

section \<open>Compile commands\<close>

text \<open>
  The argument sequence of a compile group in the words of the specification: every raw
  command fragment verbatim, then one quoted include argument per include directory, in
  the external form when requested and the ordinary form otherwise, then one quoted
  define argument per define.
\<close>

definition spec_group_arguments :: "compile_group \<Rightarrow> options \<Rightarrow> string list" where
  "spec_group_arguments g opts =
     cg_compileCommandFragments g
     @ map (\<lambda>dir. escapeArgument ((if useExternalIncludes opts then ''/external:I'' else ''/I'') @ dir))
         (cg_includes g)
     @ map (\<lambda>d. escapeArgument (''/D'' @ d)) (cg_defines g)"

text \<open>The compile group of the end-to-end scenario of the specification.\<close>

definition fx_group :: compile_group where
  "fx_group =
     \<lparr>cg_language = ''CXX'', cg_compileCommandFragments = [''/W4''],
      cg_includes = [''C:/proj/inc''], cg_defines = [''DEBUG''], cg_sourceIndexes = [0]\<rparr>"

lemma escapeArgument_plain:
  "s \<noteq> [] \<Longrightarrow> last s \<noteq> backslash \<Longrightarrow> escapeArgument s = [dquote] @ s @ [dquote]"
  by (simp add: escapeArgument_def escapeArgument_loop.simps last_conv_nth)

text \<open>
  Claim C2 does not hold of the code. For the compile group of the end-to-end scenario
  the specification prescribes three arguments, the fragment, the include and the define;
  \<^verbatim>\<open>_getCompileGroupArguments\<close> throws a ReferenceError on its first statement and
  returns no argument string.
\<close>

theorem getCompileGroupArguments_throws:
  "getCompileGroupArguments fx_group \<lparr>useExternalIncludes = False\<rparr>
     = Inl (ReferenceError ''compileArguments'')
   \<and> spec_group_arguments fx_group \<lparr>useExternalIncludes = False\<rparr>
     = [''/W4'', [dquote] @ ''/IC:/proj/inc'' @ [dquote], [dquote] @ ''/DDEBUG'' @ [dquote]]"
  by (simp add: getCompileGroupArguments_def spec_group_arguments_def fx_group_def
      escapeArgument_plain backslash_def)

lemma spec_group_arguments_length:
  "length (spec_group_arguments g opts)
     = length (cg_compileCommandFragments g) + length (cg_includes g) + length (cg_defines g)"
  by (simp add: spec_group_arguments_def)

text \<open>
  The iteration in the words of the specification: for every recorded target document,
  every compile group whose language has a resolved compiler, and every source index of
  the group, one command, in that order; a group whose language has no resolved compiler
  contributes nothing. \<open>join\<close> is the path join and \<open>docs\<close> the target documents by
  path.
\<close>

definition spec_compiler_for :: "session \<Rightarrow> string \<Rightarrow> compiler_info option" where
  "spec_compiler_for s language =
     (if language = ''C'' then cCompilerInfo s
      else if language = ''CXX'' then cxxCompilerInfo s
      else None)"

definition spec_group_commands ::
    "(string list \<Rightarrow> string) \<Rightarrow> session \<Rightarrow> options \<Rightarrow> target_doc \<Rightarrow> compile_group
       \<Rightarrow> compile_command list" where
  "spec_group_commands join s opts td g =
     (case spec_compiler_for s (cg_language g) of
        None \<Rightarrow> []
      | Some info \<Rightarrow>
          map (\<lambda>sourceIndex.
                 \<lparr>cc_source = join [case sourceRoot s of None \<Rightarrow> [] | Some r \<Rightarrow> r,
                                     td_sources td ! sourceIndex],
                  cc_arguments = concat (spec_group_arguments g opts),
                  cc_compiler = info\<rparr>)
              (cg_sourceIndexes g))"

definition spec_compile_commands ::
    "(string list \<Rightarrow> string) \<Rightarrow> (string \<rightharpoonup> target_doc) \<Rightarrow> session \<Rightarrow> options
       \<Rightarrow> compile_command list" where
  "spec_compile_commands join docs s opts =
     concat (map (\<lambda>target.
                    case docs target of
                      None \<Rightarrow> []
                    | Some td \<Rightarrow> concat (map (spec_group_commands join s opts td) (td_compileGroups td)))
                 (targetFilepaths s))"

text \<open>
  A session as a successful load of the end-to-end scenario would leave it: one target,
  a resolved C++ compiler.
\<close>

definition fx_msvc :: compiler_info where
  "fx_msvc = \<lparr>ci_path = ''C:/VS/VC/Tools/MSVC/14.29.30133/bin/HostX64/x64/cl.exe'',
              ci_version = ''14.29.30133'',
              ci_includes = [''C:/VS/VC/Tools/MSVC/14.29.30133/include'']\<rparr>"

definition fx_loaded :: session where
  "fx_loaded =
     \<lparr>loaded = True, cCompilerInfo = None, cxxCompilerInfo = Some fx_msvc,
      sourceRoot = Some ''C:/proj'', cache = Map.empty,
      targetFilepaths = [''/build/.cmake/api/v1/reply/target-app.json'']\<rparr>"

definition fx_targets :: "string \<rightharpoonup> target_doc" where
  "fx_targets =
     [''/build/.cmake/api/v1/reply/target-app.json''
        \<mapsto> \<lparr>td_compileGroups = [fx_group], td_sources = [''main.cpp'']\<rparr>]"

text \<open>
  Claim C9 does not hold of the code. On the loaded session of the end-to-end scenario
  the specification prescribes exactly one compile command; the iterator yields none and
  ends with a ReferenceError in the first round of its loop over the targets.
\<close>

theorem compileCommandsIterator_throws:
  "compileCommandsIterator fx_loaded \<lparr>useExternalIncludes = False\<rparr>
     = ([], Some (ReferenceError ''_parseReplyFile''))
   \<and> spec_compile_commands (intercalate ''/'') fx_targets fx_loaded \<lparr>useExternalIncludes = False\<rparr>
     = [\<lparr>cc_source = ''C:/proj/main.cpp'',
         cc_arguments = ''/W4'' @ [dquote] @ ''/IC:/proj/inc'' @ [dquote] @ [dquote] @ ''/DDEBUG'' @ [dquote],
         cc_compiler = fx_msvc\<rparr>]"
  by (simp add: compileCommandsIterator_def for_in_keys_def fx_loaded_def spec_compile_commands_def
      fx_targets_def spec_group_commands_def spec_compiler_for_def fx_group_def
      spec_group_arguments_def escapeArgument_plain backslash_def upt_rec)

text \<open>On no session does the iterator yield a command.\<close>

lemma compileCommandsIterator_yields_nothing: "fst (compileCommandsIterator s opts) = []"
  by (simp add: compileCommandsIterator_def split: list.splits)

section \<open>The index resolver\<close>

text \<open>The string order is a strict linear order.\<close>

lemma str_lt_irrefl: "\<not> str_lt a a"
  by (induction a) simp_all

lemma str_lt_trans: "str_lt a b \<Longrightarrow> str_lt b c \<Longrightarrow> str_lt a c"
proof (induction a b arbitrary: c rule: str_lt.induct)
  case 1
  then show ?case by simp
next
  case (2 y ys)
  then show ?case by (cases c) simp_all
next
  case (3 x xs)
  then show ?case by simp
next
  case (4 x xs y ys)
  show ?case
  proof (cases c)
    case Nil
    then show ?thesis using 4 by simp
  next
    case (Cons z zs)
    show ?thesis
      using "4.prems" "4.IH" [of zs] unfolding Cons
      by (auto split: if_splits)
  qed
qed

lemma str_lt_total: "a \<noteq> b \<Longrightarrow> str_lt a b \<or> str_lt b a"
  by (induction a b rule: str_lt.induct) auto

text \<open>
  The selection of lines 156-165: among the names whose basename starts with the index
  prefix it returns the greatest in the string order, whatever the order of the listing,
  and nothing when no name matches.
\<close>

definition is_index :: "'w node \<Rightarrow> string \<Rightarrow> bool" where
  "is_index env filepath = startsWith (path_basename env filepath) ''index-''"

lemma index_step_alt:
  "index_step env x acc =
     (if is_index env x
      then (case acc of None \<Rightarrow> Some x
            | Some current \<Rightarrow> if current = [] \<or> str_lt current x then Some x else acc)
      else acc)"
  by (simp add: index_step_def is_index_def str_gt_def split: option.splits)

lemma select_index_snoc:
  "select_index env (names @ [x]) = index_step env x (select_index env names)"
  by (simp add: select_index_def)

lemma select_index_char:
  assumes "[] \<notin> set (filter (is_index env) names)"
  shows "(select_index env names = None \<longleftrightarrow> filter (is_index env) names = [])
         \<and> (\<forall>m. select_index env names = Some m \<longrightarrow>
               m \<in> set (filter (is_index env) names)
               \<and> (\<forall>n \<in> set (filter (is_index env) names). \<not> str_lt m n))"
  using assms
proof (induction names rule: rev_induct)
  case Nil
  then show ?case by (simp add: select_index_def)
next
  case (snoc x xs)
  then have ne: "[] \<notin> set (filter (is_index env) xs)" by auto
  note IH = snoc.IH [OF ne]
  show ?case
  proof (cases "is_index env x")
    case False
    then show ?thesis using IH
      by (simp add: select_index_snoc index_step_alt)
  next
    case True
    show ?thesis
    proof (cases "select_index env xs")
      case None
      then have "filter (is_index env) xs = []" using IH by simp
      then show ?thesis using True None
        by (simp add: select_index_snoc index_step_alt str_lt_irrefl)
    next
      case (Some cur)
      then have cur: "cur \<in> set (filter (is_index env) xs)"
        and mx: "\<forall>n \<in> set (filter (is_index env) xs). \<not> str_lt cur n"
        using IH by auto
      from cur ne have cne: "cur \<noteq> []" by auto
      show ?thesis
      proof (cases "str_lt cur x")
        case lt: True
        have "\<not> str_lt x n" if "n \<in> set (filter (is_index env) xs)" for n
          using mx that lt str_lt_trans by blast
        then show ?thesis using True Some lt cne
          by (auto simp add: select_index_snoc index_step_alt str_lt_irrefl)
      next
        case nlt: False
        then show ?thesis using True Some cur mx cne
          by (auto simp add: select_index_snoc index_step_alt)
      qed
    qed
  qed
qed

lemma select_index_greatest:
  assumes "[] \<notin> set names"
  shows "(filter (is_index env) names = [] \<longrightarrow> select_index env names = None)
         \<and> (filter (is_index env) names \<noteq> [] \<longrightarrow>
              (\<exists>m \<in> set names. is_index env m \<and> select_index env names = Some m
                 \<and> (\<forall>n \<in> set names. is_index env n \<longrightarrow> n = m \<or> str_lt n m)))"
proof -
  have ne: "[] \<notin> set (filter (is_index env) names)" using assms by auto
  note c = select_index_char [OF ne]
  show ?thesis
  proof (cases "select_index env names")
    case None
    then show ?thesis using c by simp
  next
    case (Some m)
    then have m: "m \<in> set (filter (is_index env) names)"
      and mx: "\<forall>n \<in> set (filter (is_index env) names). \<not> str_lt m n"
      using c by auto
    have "n = m \<or> str_lt n m" if "n \<in> set names" "is_index env n" for n
      using mx that str_lt_total [of n m] by auto
    then show ?thesis using Some m by (auto simp: filter_empty_conv)
  qed
qed

lemma select_index_order_independent:
  assumes "[] \<notin> set names" and "set names' = set names"
  shows "select_index env names' = select_index env names"
proof -
  have ne': "[] \<notin> set names'" using assms by simp
  have fs: "set (filter (is_index env) names') = set (filter (is_index env) names)"
    using assms(2) by simp
  then have fe: "filter (is_index env) names' = [] \<longleftrightarrow> filter (is_index env) names = []"
    by (metis set_empty)
  show ?thesis
  proof (cases "filter (is_index env) names = []")
    case True
    then show ?thesis
      using select_index_greatest [OF assms(1), of env] select_index_greatest [OF ne', of env] fe
      by simp
  next
    case False
    then obtain m where m: "m \<in> set names" "is_index env m" "select_index env names = Some m"
      "\<forall>n \<in> set names. is_index env n \<longrightarrow> n = m \<or> str_lt n m"
      using select_index_greatest [OF assms(1), of env] by blast
    from False fe obtain m' where m': "m' \<in> set names'" "is_index env m'"
      "select_index env names' = Some m'"
      "\<forall>n \<in> set names'. is_index env n \<longrightarrow> n = m' \<or> str_lt n m'"
      using select_index_greatest [OF ne', of env] by blast
    have "m' = m \<or> str_lt m' m" using m(4) m'(1,2) assms(2) by auto
    moreover have "m = m' \<or> str_lt m m'" using m'(4) m(1,2) assms(2) by auto
    ultimately have "m = m'" using str_lt_trans str_lt_irrefl by blast
    then show ?thesis using m(3) m'(3) by simp
  qed
qed

lemma select_index_permutation:
  assumes "[] \<notin> set names" and "mset names' = mset names"
  shows "select_index env names' = select_index env names"
  using select_index_order_independent [OF assms(1), of names' env] assms(2)
  by (metis mset_eq_setD)

lemma getApiReplyIndex_not_found:
  assumes "fs_readdirSync env w (path_join env [apiDir, ''reply'']) = Inr names"
    and "[] \<notin> set names"
    and "filter (is_index env) names = []"
  shows "getApiReplyIndex env w apiDir = Inl index_not_found"
  using assms select_index_greatest [OF assms(2), of env]
  by (simp add: getApiReplyIndex_def)

lemma getApiReplyIndex_parses_selected:
  assumes "fs_readdirSync env w (path_join env [apiDir, ''reply'']) = Inr names"
    and "[] \<notin> set names"
    and "select_index env names = Some m"
  shows "getApiReplyIndex env w apiDir = parseReplyFile env w m"
  using assms select_index_greatest [OF assms(2), of env]
  by (auto simp add: getApiReplyIndex_def)

text \<open>
  A reply directory with two index files and a cache response. The process runs
  elsewhere, so the bare name \<^verbatim>\<open>index-2021-02.json\<close> is no file.
\<close>

definition fx_index :: "string \<Rightarrow> reply_doc" where
  "fx_index v = IndexDoc \<lparr>idx_version_string = v, idx_paths_cmake = ''/usr/bin/cmake'', idx_reply = []\<rparr>"

definition fx_replies :: fx_world where
  "fx_replies =
     \<lparr>fx_dirs = [(''/build'', [''.cmake'']), (''/build/.cmake/api/v1'', [''reply'']),
                 (''/build/.cmake/api/v1/reply'',
                    [''index-2021-02.json'', ''cache-v2-ab.json'', ''index-2021-01.json''])],
      fx_files = [(''/build/.cmake/api/v1/reply/index-2021-01.json'', fx_index ''3.19.0''),
                  (''/build/.cmake/api/v1/reply/index-2021-02.json'', fx_index ''3.19.1''),
                  (''/build/.cmake/api/v1/reply/cache-v2-ab.json'', CacheDoc [])],
      fx_written = []\<rparr>"

text \<open>
  Claim C5 does not hold of the code. The reply directory lists two index files; the
  resolver selects the greatest name, \<^verbatim>\<open>index-2021-02.json\<close>, whose document the
  directory holds, and then looks the bare name up without the directory: it fails with
  the error of a missing reply file and returns no document.
\<close>

theorem getApiReplyIndex_bare_name:
  "fs_readdirSync fx_node fx_replies (path_join fx_node [''/build/.cmake/api/v1'', ''reply''])
     = Inr [''index-2021-02.json'', ''cache-v2-ab.json'', ''index-2021-01.json'']
   \<and> select_index fx_node [''index-2021-02.json'', ''cache-v2-ab.json'', ''index-2021-01.json'']
     = Some ''index-2021-02.json''
   \<and> fs_readJson fx_node fx_replies ''/build/.cmake/api/v1/reply/index-2021-02.json''
     = Inr (fx_index ''3.19.1'')
   \<and> getApiReplyIndex fx_node fx_replies ''/build/.cmake/api/v1''
     = Inl (Error ''Failed to find CMake API reply file: index-2021-02.json'')"
  by (simp add: fx_node_def fx_replies_def select_index_def index_step_def startsWith_def
      fx_basename_def str_gt_def less_char_def getApiReplyIndex_def parseReplyFile_def)

section \<open>A load that succeeds\<close>

text \<open>
  The parameters do not make loadApi fail by themselves. In a world where the reply
  directory is also the working directory, so that the bare index name is a file, where
  the call of line 376 returns, and where the toolchains response names an MSVC compiler
  for C++, loadApi returns and sets the loaded flag. Node's own
  \<^verbatim>\<open>child_process.spawn\<close> does not accept the string that line 376 passes as its
  second argument; the example says nothing of a run under Node.
\<close>

definition fx_msvc_toolchain :: toolchain where
  "fx_msvc_toolchain =
     \<lparr>tc_language = ''CXX'', tc_compiler_id = ''MSVC'', tc_compiler_path = fx_cl,
      tc_compiler_version = ''19.29.30133.0'',
      tc_compiler_includeDirectories = [''C:/VS/VC/Tools/MSVC/14.29.30133/include'']\<rparr>"

definition fx_full_index :: reply_doc where
  "fx_full_index =
     IndexDoc \<lparr>idx_version_string = ''3.20.2'', idx_paths_cmake = ''/usr/bin/cmake'',
       idx_reply = [(clientName, [(''query.json'',
          [\<lparr>rsp_kind = ''cache'', rsp_jsonFile = ''cache-v2.json''\<rparr>,
           \<lparr>rsp_kind = ''codemodel'', rsp_jsonFile = ''codemodel-v2.json''\<rparr>,
           \<lparr>rsp_kind = ''toolchains'', rsp_jsonFile = ''toolchains-v1.json''\<rparr>])])]\<rparr>"

definition fx_in_reply_dir :: fx_world where
  "fx_in_reply_dir =
     \<lparr>fx_dirs = [(''/build'', [''.cmake'']), (''/build/.cmake/api/v1'', [''query'', ''reply'']),
                 (''/build/.cmake/api/v1/query'', []),
                 (''/build/.cmake/api/v1/reply'',
                    [''cache-v2.json'', ''codemodel-v2.json'', ''index-1.json'', ''toolchains-v1.json''])],
      fx_files = [(''/usr/bin/cmake'', CacheDoc []),
                  (''index-1.json'', fx_full_index),
                  (''/build/.cmake/api/v1/reply/cache-v2.json'',
                     CacheDoc [fx_entry ''CMAKE_CXX_COMPILER'' fx_cl ''FILEPATH'']),
                  (''/build/.cmake/api/v1/reply/codemodel-v2.json'',
                     CodemodelDoc \<lparr>cm_configurations = [[''target-app.json'']],
                                    cm_paths_source = ''C:/proj''\<rparr>),
                  (''/build/.cmake/api/v1/reply/toolchains-v1.json'',
                     ToolchainsDoc [fx_msvc_toolchain])],
      fx_written = []\<rparr>"

lemma loadApi_can_succeed:
  "fst (loadApi fx_node fx_in_reply_dir CMakeApi_new ''/build'') = Inr ()
   \<and> loaded (fst (snd (loadApi fx_node fx_in_reply_dir CMakeApi_new ''/build'')))
   \<and> targetFilepaths (fst (snd (loadApi fx_node fx_in_reply_dir CMakeApi_new ''/build'')))
       = [''/build/.cmake/api/v1/reply/target-app.json'']"
  by (simp add: loadApi_def fx_node_def fx_in_reply_dir_def getApiReplyIndex_def select_index_def
      index_step_def startsWith_def fx_basename_def parseReplyFile_def fx_full_index_def
      less_char_def createApiQuery_def clientName_def loadReplyFiles_def index_responses_def
      loadCache_def loadCodemodel_def loadToolchains_def toolchain_step_def fx_msvc_toolchain_def
      CMakeApi_new_def Let_def)

end
